theory Spec2Isabelle
  imports Main
begin

section \<open>Python values, exceptions and text\<close>

text \<open>
  The handlers of \<^verbatim>\<open>backend/server.py\<close> pass around untyped JSON-shaped values:
  the result of \<^verbatim>\<open>json.loads\<close>, the \<^verbatim>\<open>metadata\<close> of an agent result, the recipe
  record. They are values of \<open>pyval\<close>. A \<^verbatim>\<open>dict\<close> is an association list in insertion
  order. A float is kept by the text of its literal: no handler computes with one.
\<close>

datatype pyval =
    PNone
  | PBool bool
  | PInt int
  | PFloat string
  | PStr string
  | PList "pyval list"
  | PDict "(string \<times> pyval) list"

text \<open>
  An exception is its class and the text \<^verbatim>\<open>str(e)\<close> returns. Only instances of
  \<^verbatim>\<open>Exception\<close> are modelled, which is what \<^verbatim>\<open>except Exception\<close> catches;
  \<open>OtherException\<close> stands for every class that derives from none of the named ones.
\<close>

datatype exc_class =
    HTTPException
  | JSONDecodeError
  | ValueError
  | TypeError
  | ValidationError
  | OtherException

datatype exn = Exn (cls: exc_class) (str: string)

text \<open>
  \<^verbatim>\<open>isinstance(e, ValueError)\<close>: \<^verbatim>\<open>json.JSONDecodeError\<close> and pydantic's
  \<^verbatim>\<open>ValidationError\<close> derive from \<^verbatim>\<open>ValueError\<close>.
\<close>

fun is_ValueError :: "exc_class \<Rightarrow> bool" where
  "is_ValueError JSONDecodeError = True"
| "is_ValueError ValueError = True"
| "is_ValueError ValidationError = True"
| "is_ValueError _ = False"

fun is_JSONDecodeError :: "exc_class \<Rightarrow> bool" where
  "is_JSONDecodeError JSONDecodeError = True"
| "is_JSONDecodeError _ = False"

text \<open>\<^verbatim>\<open>except Exception\<close> matches every modelled exception.\<close>

definition is_Exception :: "exc_class \<Rightarrow> bool" where
  "is_Exception c = True"

text \<open>
  \<^verbatim>\<open>try: body  except <classes> as e: handler(e)\<close>. An exception of another class
  leaves the statement.
\<close>

definition try_except :: "exn + 'a \<Rightarrow> (exc_class \<Rightarrow> bool) \<Rightarrow> (exn \<Rightarrow> exn + 'a) \<Rightarrow> exn + 'a" where
  "try_except body matches handler =
     (case body of
        Inl e \<Rightarrow> if matches (cls e) then handler e else Inl e
      | Inr v \<Rightarrow> Inr v)"

subsection \<open>Text\<close>

text \<open>
  A \<^verbatim>\<open>str\<close> is a \<open>string\<close>, one \<open>char\<close> per code point, for the code points below 256.
  \<^verbatim>\<open>str.isspace\<close> on them: tab to carriage return, the four separators 0x1C to 0x1F,
  space, NEL (0x85) and the no-break space (0xA0).
\<close>

definition isspace :: "char \<Rightarrow> bool" where
  "isspace c =
     (let n = (of_char c :: nat)
      in (9 \<le> n \<and> n \<le> 13) \<or> (28 \<le> n \<and> n \<le> 32) \<or> n = 133 \<or> n = 160)"

text \<open>\<^verbatim>\<open>s.strip()\<close>: whitespace removed at both ends.\<close>

definition strip :: "string \<Rightarrow> string" where
  "strip s = rev (dropWhile isspace (rev (dropWhile isspace s)))"

text \<open>\<^verbatim>\<open>sep.join(xs)\<close>.\<close>

fun join :: "string \<Rightarrow> string list \<Rightarrow> string" where
  "join sep [] = []"
| "join sep [x] = x"
| "join sep (x # y # zs) = x @ sep @ join sep (y # zs)"

text \<open>
  \<^verbatim>\<open>re.search(r'\{.*\}', content, re.DOTALL)\<close>. The match starts at the leftmost
  \<^verbatim>\<open>{\<close> that has a \<^verbatim>\<open>}\<close> somewhere after it; with \<^verbatim>\<open>DOTALL\<close> the greedy
  \<^verbatim>\<open>.*\<close> crosses newlines and runs to the last \<^verbatim>\<open>}\<close> of the text. A \<^verbatim>\<open>}\<close>
  after any \<^verbatim>\<open>{\<close> is after the first one, so the first \<^verbatim>\<open>{\<close> decides.
  \<open>None\<close> is no match, \<open>Some m\<close> is \<^verbatim>\<open>json_match.group()\<close>.
\<close>

definition upto_last :: "char \<Rightarrow> string \<Rightarrow> string" where
  "upto_last c s = rev (dropWhile (\<lambda>x. x \<noteq> c) (rev s))"

definition re_search :: "string \<Rightarrow> string option" where
  "re_search content =
     (case dropWhile (\<lambda>x. x \<noteq> CHR ''{'') content of
        [] \<Rightarrow> None
      | brace # rest \<Rightarrow>
          (case upto_last CHR ''}'' rest of
             [] \<Rightarrow> None
           | m \<Rightarrow> Some (brace # m)))"

text \<open>\<^verbatim>\<open>needle in haystack\<close> on two strings: a contiguous occurrence.\<close>

fun startswith :: "string \<Rightarrow> string \<Rightarrow> bool" where
  "startswith s [] = True"
| "startswith [] (p # ps) = False"
| "startswith (c # cs) (p # ps) = (c = p \<and> startswith cs ps)"

fun str_contains :: "string \<Rightarrow> string \<Rightarrow> bool" where
  "str_contains [] needle = (needle = [])"
| "str_contains (c # cs) needle = (startswith (c # cs) needle \<or> str_contains cs needle)"

section \<open>Agents and the module state\<close>

text \<open>
  \<^verbatim>\<open>ai_agents.agents\<close> is a collaborator: an agent is what the handlers call on it.
  \<open>execute prompt use_tools\<close> is the awaited call, which returns an \<open>AgentResult\<close>
  or raises; \<open>get_capabilities\<close> likewise. A call that leaves \<^verbatim>\<open>use_tools\<close> out
  passes \<open>False\<close>.
\<close>

record AgentResult =
  success :: bool
  content :: string
  metadata :: "(string \<times> pyval) list"
  error :: "string option"

record agent =
  execute :: "string \<Rightarrow> bool \<Rightarrow> exn + AgentResult"
  get_capabilities :: "exn + string list"

text \<open>
  What the handlers take from outside \<^verbatim>\<open>server.py\<close>. The three constructors are
  already applied to \<^verbatim>\<open>agent_config\<close>: each returns an agent or raises. The rest is
  library behaviour the handlers depend on: \<^verbatim>\<open>json.loads\<close>;
  \<^verbatim>\<open>str.title\<close>, whose case mapping is Unicode's; the text of an
  \<^verbatim>\<open>HTTPException\<close> by status code and detail; the text of the \<^verbatim>\<open>TypeError\<close>
  that \<^verbatim>\<open>in\<close> raises on a value that is no container; the text of pydantic's
  \<^verbatim>\<open>ValidationError\<close> for a \<^verbatim>\<open>recipe\<close> that is no \<^verbatim>\<open>dict\<close>; pydantic's
  validation of an \<^verbatim>\<open>int\<close> field.
\<close>

record env =
  SearchAgent :: "exn + agent"
  ChatAgent :: "exn + agent"
  RecipeAgent :: "exn + agent"
  json_loads :: "string \<Rightarrow> exn + pyval"
  str_title :: "string \<Rightarrow> string"
  HTTPException_str :: "nat \<Rightarrow> string \<Rightarrow> string"
  not_iterable_str :: "pyval \<Rightarrow> string"
  not_a_dict_str :: "pyval \<Rightarrow> string"
  validate_int :: "pyval \<Rightarrow> exn + int"

text \<open>The module globals \<^verbatim>\<open>search_agent\<close>, \<^verbatim>\<open>chat_agent\<close>, \<^verbatim>\<open>recipe_agent\<close>.\<close>

record globals =
  search_agent :: "agent option"
  chat_agent :: "agent option"
  recipe_agent :: "agent option"

section \<open>Request and response models\<close>

record ChatRequest =
  message :: string
  agent_type :: string
  "context" :: "(string \<times> pyval) list option"

record ChatResponse =
  success :: bool
  response :: string
  agent_type :: string
  capabilities :: "string list"
  metadata :: "(string \<times> pyval) list"
  error :: "string option"

record SearchRequest =
  query :: string
  max_results :: int

record SearchResponse =
  success :: bool
  query :: string
  summary :: string
  search_results :: "(string \<times> pyval) list option"
  sources_count :: int
  error :: "string option"

record RecipeRequest =
  ingredients :: "string list"
  dietary_restrictions :: "string list option"
  cuisine_type :: "string option"
  meal_type :: "string option"
  cooking_time :: "string option"

record RecipeResponse =
  success :: bool
  recipe :: "(string \<times> pyval) list"
  error :: "string option"

section \<open>POST /chat\<close>

text \<open>Lines 117 to 121: the lazy construction, which assigns the global.\<close>

definition chat_init :: "env \<Rightarrow> globals \<Rightarrow> ChatRequest \<Rightarrow> exn + globals" where
  "chat_init env g request =
     (if ChatRequest.agent_type request = ''search'' \<and> search_agent g = None then
        (case SearchAgent env of
           Inl e \<Rightarrow> Inl e
         | Inr a \<Rightarrow> Inr (g\<lparr>search_agent := Some a\<rparr>))
      else if ChatRequest.agent_type request = ''chat'' \<and> chat_agent g = None then
        (case ChatAgent env of
           Inl e \<Rightarrow> Inl e
         | Inr a \<Rightarrow> Inr (g\<lparr>chat_agent := Some a\<rparr>))
      else Inr g)"

text \<open>Lines 124 to 139: select, execute, build the response.\<close>

definition chat_run :: "env \<Rightarrow> globals \<Rightarrow> ChatRequest \<Rightarrow> exn + ChatResponse" where
  "chat_run env g request =
     (case (if ChatRequest.agent_type request = ''search'' then search_agent g else chat_agent g) of
        None \<Rightarrow> Inl (Exn HTTPException (HTTPException_str env 500 ''Failed to initialize agent''))
      | Some a \<Rightarrow>
          (case execute a (message request) False of
             Inl e \<Rightarrow> Inl e
           | Inr r \<Rightarrow>
               (case get_capabilities a of
                  Inl e \<Rightarrow> Inl e
                | Inr caps \<Rightarrow>
                    Inr \<lparr> ChatResponse.success = AgentResult.success r,
                          response = content r,
                          ChatResponse.agent_type = ChatRequest.agent_type request,
                          capabilities = caps,
                          ChatResponse.metadata = AgentResult.metadata r,
                          ChatResponse.error = AgentResult.error r \<rparr>)))"

text \<open>Lines 141 to 149: the response of the \<^verbatim>\<open>except Exception\<close> clause.\<close>

definition chat_failed :: "ChatRequest \<Rightarrow> exn \<Rightarrow> ChatResponse" where
  "chat_failed request e =
     \<lparr> ChatResponse.success = False,
       response = [],
       ChatResponse.agent_type = ChatRequest.agent_type request,
       capabilities = [],
       ChatResponse.metadata = [],
       ChatResponse.error = Some (str e) \<rparr>"

text \<open>
  The \<^verbatim>\<open>try\<close> block of the handler: the globals after it, and its value or the
  exception that leaves it. A global assigned before the exception stays assigned.
\<close>

definition chat_body :: "env \<Rightarrow> globals \<Rightarrow> ChatRequest \<Rightarrow> globals \<times> (exn + ChatResponse)" where
  "chat_body env g request =
     (case chat_init env g request of
        Inl e \<Rightarrow> (g, Inl e)
      | Inr g' \<Rightarrow> (g', chat_run env g' request))"

text \<open>
  The handler. The result pairs the globals after the call with what the handler
  gives the framework: \<open>Inr\<close> a response body, \<open>Inl\<close> an exception that escapes it
  (the framework answers that with HTTP 500).
\<close>

definition chat_with_agent :: "env \<Rightarrow> globals \<Rightarrow> ChatRequest \<Rightarrow> globals \<times> (exn + ChatResponse)" where
  "chat_with_agent env g request =
     (case chat_body env g request of
        (g', r) \<Rightarrow> (g', try_except r is_Exception (\<lambda>e. Inr (chat_failed request e))))"

section \<open>POST /search\<close>

text \<open>\<^verbatim>\<open>d.get(key, default)\<close> on a dict.\<close>

definition dict_get :: "(string \<times> pyval) list \<Rightarrow> string \<Rightarrow> pyval \<Rightarrow> pyval" where
  "dict_get d k dflt = (case map_of d k of None \<Rightarrow> dflt | Some v \<Rightarrow> v)"

definition search_prompt :: "SearchRequest \<Rightarrow> string" where
  "search_prompt request =
     ''Search for information about: '' @ SearchRequest.query request
       @ ''. Provide a comprehensive summary with key findings.''"

text \<open>Lines 159 and 160.\<close>

definition search_init :: "env \<Rightarrow> globals \<Rightarrow> exn + globals \<times> agent" where
  "search_init env g =
     (case search_agent g of
        Some a \<Rightarrow> Inr (g, a)
      | None \<Rightarrow>
          (case SearchAgent env of
             Inl e \<Rightarrow> Inl e
           | Inr a \<Rightarrow> Inr (g\<lparr>search_agent := Some a\<rparr>, a)))"

text \<open>
  Lines 163 to 181. \<^verbatim>\<open>sources_count\<close> is an \<^verbatim>\<open>int\<close> field: on success pydantic
  validates what \<^verbatim>\<open>metadata.get("tools_used", 0)\<close> gave; on failure it is the literal 0.
\<close>

definition search_run :: "env \<Rightarrow> agent \<Rightarrow> SearchRequest \<Rightarrow> exn + SearchResponse" where
  "search_run env a request =
     (case execute a (search_prompt request) True of
        Inl e \<Rightarrow> Inl e
      | Inr result \<Rightarrow>
          if AgentResult.success result then
            (case validate_int env (dict_get (AgentResult.metadata result) ''tools_used'' (PInt 0)) of
               Inl e \<Rightarrow> Inl e
             | Inr n \<Rightarrow>
                 Inr \<lparr> SearchResponse.success = True,
                       SearchResponse.query = SearchRequest.query request,
                       summary = content result,
                       search_results = Some (AgentResult.metadata result),
                       sources_count = n,
                       SearchResponse.error = None \<rparr>)
          else
            Inr \<lparr> SearchResponse.success = False,
                  SearchResponse.query = SearchRequest.query request,
                  summary = [],
                  search_results = None,
                  sources_count = 0,
                  SearchResponse.error = AgentResult.error result \<rparr>)"

definition search_failed :: "SearchRequest \<Rightarrow> exn \<Rightarrow> SearchResponse" where
  "search_failed request e =
     \<lparr> SearchResponse.success = False,
       SearchResponse.query = SearchRequest.query request,
       summary = [],
       search_results = None,
       sources_count = 0,
       SearchResponse.error = Some (str e) \<rparr>"

definition search_body :: "env \<Rightarrow> globals \<Rightarrow> SearchRequest \<Rightarrow> globals \<times> (exn + SearchResponse)" where
  "search_body env g request =
     (case search_init env g of
        Inl e \<Rightarrow> (g, Inl e)
      | Inr (g', a) \<Rightarrow> (g', search_run env a request))"

definition search_and_summarize ::
  "env \<Rightarrow> globals \<Rightarrow> SearchRequest \<Rightarrow> globals \<times> (exn + SearchResponse)" where
  "search_and_summarize env g request =
     (case search_body env g request of
        (g', r) \<Rightarrow> (g', try_except r is_Exception (\<lambda>e. Inr (search_failed request e))))"

section \<open>GET /agents/capabilities\<close>

text \<open>
  Lines 198 to 205. The dict display evaluates its values in order: the search agent is
  constructed and asked first, then the chat agent. The body is a plain dict.
\<close>

definition capabilities_body :: "env \<Rightarrow> exn + pyval" where
  "capabilities_body env =
     (case SearchAgent env of
        Inl e \<Rightarrow> Inl e
      | Inr s \<Rightarrow>
          (case get_capabilities s of
             Inl e \<Rightarrow> Inl e
           | Inr search_caps \<Rightarrow>
               (case ChatAgent env of
                  Inl e \<Rightarrow> Inl e
                | Inr c \<Rightarrow>
                    (case get_capabilities c of
                       Inl e \<Rightarrow> Inl e
                     | Inr chat_caps \<Rightarrow>
                         Inr (PDict
                           [(''success'', PBool True),
                            (''capabilities'', PDict
                               [(''search_agent'', PList (map PStr search_caps)),
                                (''chat_agent'', PList (map PStr chat_caps))])])))))"

definition capabilities_failed :: "exn \<Rightarrow> pyval" where
  "capabilities_failed e = PDict [(''success'', PBool False), (''error'', PStr (str e))]"

definition get_agent_capabilities :: "env \<Rightarrow> exn + pyval" where
  "get_agent_capabilities env =
     try_except (capabilities_body env) is_Exception (\<lambda>e. Inr (capabilities_failed e))"

section \<open>POST /recipes/generate\<close>

subsection \<open>The prompt\<close>

text \<open>The triple-quoted literal of lines 241 to 263; it starts with a newline.\<close>

definition recipe_template :: string where
  \<open>recipe_template = concat
      [''\<newline>'',
       ''{\<newline>'',
       ''  "name": "Recipe Name",\<newline>'',
       ''  "description": "Brief description",\<newline>'',
       ''  "prep_time": "X minutes",\<newline>'',
       ''  "cook_time": "X minutes",\<newline>'',
       ''  "servings": "X",\<newline>'',
       ''  "difficulty": "Easy/Medium/Hard",\<newline>'',
       ''  "ingredients": [\<newline>'',
       ''    {"item": "ingredient name", "amount": "quantity", "unit": "unit"}\<newline>'',
       ''  ],\<newline>'',
       ''  "instructions": [\<newline>'',
       ''    {"step": 1, "instruction": "First step"},\<newline>'',
       ''    {"step": 2, "instruction": "Second step"}\<newline>'',
       ''  ],\<newline>'',
       ''  "tips": ["helpful tip 1", "helpful tip 2"],\<newline>'',
       ''  "nutrition": {\<newline>'',
       ''    "calories": "approximate calories per serving",\<newline>'',
       ''    "protein": "protein content",\<newline>'',
       ''    "carbs": "carbohydrate content",\<newline>'',
       ''    "fat": "fat content"\<newline>'',
       ''  }\<newline>'',
       ''}'']\<close>

text \<open>
  Truth value of an optional string or list: \<^verbatim>\<open>None\<close> and the empty one are false.
\<close>

fun truthy :: "'a list option \<Rightarrow> bool" where
  "truthy None = False"
| "truthy (Some []) = False"
| "truthy (Some (x # xs)) = True"

text \<open>The value of an optional field that the guard has found true.\<close>

fun val :: "'a list option \<Rightarrow> 'a list" where
  "val None = []"
| "val (Some xs) = xs"

text \<open>
  Lines 225 to 265. \<open>prompt_parts\<close> is the list the source appends to; each
  \<open>append_if\<close> is one guarded \<^verbatim>\<open>append\<close>.
\<close>

definition append_if :: "bool \<Rightarrow> string \<Rightarrow> string list \<Rightarrow> string list" where
  "append_if guard line prompt_parts = (if guard then prompt_parts @ [line] else prompt_parts)"

definition recipe_prompt :: "RecipeRequest \<Rightarrow> string" where
  "recipe_prompt request =
     (let ingredients_list = join '', '' (ingredients request);
          prompt_parts = [''Create a detailed recipe using these ingredients: '' @ ingredients_list];
          prompt_parts = append_if (truthy (dietary_restrictions request))
            (''Dietary restrictions: '' @ join '', '' (val (dietary_restrictions request))) prompt_parts;
          prompt_parts = append_if (truthy (cuisine_type request))
            (''Cuisine type: '' @ val (cuisine_type request)) prompt_parts;
          prompt_parts = append_if (truthy (meal_type request))
            (''Meal type: '' @ val (meal_type request)) prompt_parts;
          prompt_parts = append_if (truthy (cooking_time request))
            (''Cooking time preference: '' @ val (cooking_time request)) prompt_parts;
          prompt_parts = prompt_parts @ [recipe_template]
      in join ''\<newline>'' prompt_parts)"

subsection \<open>Extraction and fallback\<close>

text \<open>Lines 275 to 282: the text handed to \<^verbatim>\<open>json.loads\<close>.\<close>

definition json_str :: "string \<Rightarrow> string" where
  "json_str raw =
     (let content = strip raw
      in case re_search content of Some m \<Rightarrow> m | None \<Rightarrow> content)"

definition required_fields :: "string list" where
  "required_fields =
     [''name'', ''description'', ''prep_time'', ''cook_time'', ''servings'', ''difficulty'',
      ''ingredients'', ''instructions'']"

text \<open>
  \<^verbatim>\<open>field in recipe_data\<close>, on whatever \<^verbatim>\<open>json.loads\<close> returned: a key of a dict,
  an element of a list, a substring of a string; on \<^verbatim>\<open>None\<close>, a bool or a number the
  operator raises \<^verbatim>\<open>TypeError\<close>.
\<close>

fun contains :: "env \<Rightarrow> pyval \<Rightarrow> string \<Rightarrow> exn + bool" where
  "contains env (PDict kvs) field = Inr (field \<in> set (map fst kvs))"
| "contains env (PList xs) field = Inr (PStr field \<in> set xs)"
| "contains env (PStr s) field = Inr (str_contains s field)"
| "contains env v field = Inl (Exn TypeError (not_iterable_str env v))"

text \<open>The values \<^verbatim>\<open>in\<close> accepts on its right: a dict, a list, a string.\<close>

fun is_container :: "pyval \<Rightarrow> bool" where
  "is_container (PDict kvs) = True"
| "is_container (PList xs) = True"
| "is_container (PStr s) = True"
| "is_container v = False"

text \<open>Lines 289 to 291: the loop over the required fields.\<close>

fun validate_fields :: "env \<Rightarrow> string list \<Rightarrow> pyval \<Rightarrow> exn + unit" where
  "validate_fields env [] recipe_data = Inr ()"
| "validate_fields env (field # more_fields) recipe_data =
     (case contains env recipe_data field of
        Inl e \<Rightarrow> Inl e
      | Inr True \<Rightarrow> validate_fields env more_fields recipe_data
      | Inr False \<Rightarrow> Inl (Exn ValueError (''Missing required field: '' @ field)))"

text \<open>Lines 285 to 291: the body of the inner \<^verbatim>\<open>try\<close>.\<close>

definition parse_recipe :: "env \<Rightarrow> string \<Rightarrow> exn + pyval" where
  "parse_recipe env s =
     (case json_loads env s of
        Inl e \<Rightarrow> Inl e
      | Inr recipe_data \<Rightarrow>
          (case validate_fields env required_fields recipe_data of
             Inl e \<Rightarrow> Inl e
           | Inr _ \<Rightarrow> Inr recipe_data))"

text \<open>
  Lines 296 to 323: the record built from the request alone. The environment is there for
  \<^verbatim>\<open>.title()\<close>, which only the \<^verbatim>\<open>name\<close> field uses.
\<close>

definition fallback_recipe :: "env \<Rightarrow> RecipeRequest \<Rightarrow> (string \<times> pyval) list" where
  "fallback_recipe env request =
     [(''name'', PStr (strip
         ((if truthy (cuisine_type request) then str_title env (val (cuisine_type request))
           else [])
          @ '' ''
          @ (if truthy (meal_type request) then str_title env (val (meal_type request))
             else ''Dish'')
          @ '' with '' @ join '', '' (take 2 (ingredients request))))),
      (''description'', PStr
         (''A delicious recipe using '' @ join '', '' (ingredients request) @ '' with ''
          @ (if truthy (dietary_restrictions request)
             then join '', '' (val (dietary_restrictions request))
             else ''no dietary restrictions''))),
      (''prep_time'', PStr ''15 minutes''),
      (''cook_time'', PStr
         (if truthy (cooking_time request) then val (cooking_time request) else ''30 minutes'')),
      (''servings'', PStr ''4''),
      (''difficulty'', PStr ''Medium''),
      (''ingredients'', PList
         (map (\<lambda>ing. PDict [(''item'', PStr ing), (''amount'', PStr ''1-2''),
                              (''unit'', PStr ''portions'')])
            (ingredients request))),
      (''instructions'', PList
         [PDict [(''step'', PInt 1),
                 (''instruction'',
                  PStr (''Prepare all ingredients: '' @ join '', '' (ingredients request)))],
          PDict [(''step'', PInt 2),
                 (''instruction'', PStr ''Heat oil in a large pan over medium heat'')],
          PDict [(''step'', PInt 3),
                 (''instruction'',
                  PStr ''Add ingredients and cook according to recipe requirements'')],
          PDict [(''step'', PInt 4),
                 (''instruction'', PStr ''Season with salt, pepper, and herbs to taste'')],
          PDict [(''step'', PInt 5), (''instruction'', PStr ''Serve hot and enjoy!'')]]),
      (''tips'', PList
         [PStr ''Adjust seasoning to taste'',
          PStr ''Feel free to substitute ingredients based on availability'']),
      (''nutrition'', PDict
         [(''calories'', PStr ''300-400 per serving''),
          (''protein'', PStr ''15-25g''),
          (''carbs'', PStr ''20-40g''),
          (''fat'', PStr ''10-20g'')])]"

text \<open>
  Lines 284 to 323: the inner \<^verbatim>\<open>try\<close> with its
  \<^verbatim>\<open>except (json.JSONDecodeError, ValueError)\<close>.
\<close>

definition extract_recipe :: "env \<Rightarrow> RecipeRequest \<Rightarrow> string \<Rightarrow> exn + pyval" where
  "extract_recipe env request s =
     try_except (parse_recipe env s)
       (\<lambda>c. is_JSONDecodeError c \<or> is_ValueError c)
       (\<lambda>e. Inr (PDict (fallback_recipe env request)))"

text \<open>
  \<^verbatim>\<open>RecipeResponse(success=..., recipe=..., error=...)\<close>: \<^verbatim>\<open>recipe\<close> is declared
  \<^verbatim>\<open>dict\<close>. A dict passes as it is. Of the other values only a list or a string
  that holds all eight field names reaches this call, and on it pydantic raises its
  \<^verbatim>\<open>ValidationError\<close>.
\<close>

definition RecipeResponse_init :: "env \<Rightarrow> bool \<Rightarrow> pyval \<Rightarrow> string option \<Rightarrow> exn + RecipeResponse" where
  "RecipeResponse_init env ok recipe_data err =
     (case recipe_data of
        PDict kvs \<Rightarrow>
          Inr \<lparr> RecipeResponse.success = ok, recipe = kvs, RecipeResponse.error = err \<rparr>
      | v \<Rightarrow> Inl (Exn ValidationError (not_a_dict_str env v)))"

subsection \<open>The handler\<close>

text \<open>Lines 221 and 222.\<close>

definition recipe_init :: "env \<Rightarrow> globals \<Rightarrow> exn + globals \<times> agent" where
  "recipe_init env g =
     (case recipe_agent g of
        Some a \<Rightarrow> Inr (g, a)
      | None \<Rightarrow>
          (case RecipeAgent env of
             Inl e \<Rightarrow> Inl e
           | Inr a \<Rightarrow> Inr (g\<lparr>recipe_agent := Some a\<rparr>, a)))"

text \<open>Lines 224 to 334.\<close>

definition recipe_run :: "env \<Rightarrow> agent \<Rightarrow> RecipeRequest \<Rightarrow> exn + RecipeResponse" where
  "recipe_run env a request =
     (case execute a (recipe_prompt request) False of
        Inl e \<Rightarrow> Inl e
      | Inr result \<Rightarrow>
          if AgentResult.success result then
            (case extract_recipe env request (json_str (content result)) of
               Inl e \<Rightarrow> Inl e
             | Inr recipe_data \<Rightarrow> RecipeResponse_init env True recipe_data None)
          else
            Inr \<lparr> RecipeResponse.success = False, recipe = [],
                  RecipeResponse.error = AgentResult.error result \<rparr>)"

definition recipe_failed :: "exn \<Rightarrow> RecipeResponse" where
  "recipe_failed e =
     \<lparr> RecipeResponse.success = False, recipe = [], RecipeResponse.error = Some (str e) \<rparr>"

definition recipe_body :: "env \<Rightarrow> globals \<Rightarrow> RecipeRequest \<Rightarrow> globals \<times> (exn + RecipeResponse)" where
  "recipe_body env g request =
     (case recipe_init env g of
        Inl e \<Rightarrow> (g, Inl e)
      | Inr (g', a) \<Rightarrow> (g', recipe_run env a request))"

definition generate_recipe ::
  "env \<Rightarrow> globals \<Rightarrow> RecipeRequest \<Rightarrow> globals \<times> (exn + RecipeResponse)" where
  "generate_recipe env g request =
     (case recipe_body env g request of
        (g', r) \<Rightarrow> (g', try_except r is_Exception (\<lambda>e. Inr (recipe_failed e))))"

section \<open>The specification's wording\<close>

text \<open>
  The candidate text as the specification describes it: trim; find the first
  \<^verbatim>\<open>{\<close> and the last \<^verbatim>\<open>}\<close>; if both exist and the first comes before the
  last, the candidate is the span between them, both included; otherwise it is the
  whole trimmed text.
\<close>

definition first_index :: "char \<Rightarrow> string \<Rightarrow> nat option" where
  "first_index c s =
     (if c \<in> set s then Some (length (takeWhile (\<lambda>x. x \<noteq> c) s)) else None)"

definition last_index :: "char \<Rightarrow> string \<Rightarrow> nat option" where
  "last_index c s =
     (if c \<in> set s then Some (length s - 1 - length (takeWhile (\<lambda>x. x \<noteq> c) (rev s)))
      else None)"

definition candidate :: "string \<Rightarrow> string" where
  "candidate raw =
     (let t = strip raw
      in case (first_index CHR ''{'' t, last_index CHR ''}'' t) of
           (Some i, Some j) \<Rightarrow> if i < j then take (j + 1 - i) (drop i t) else t
         | _ \<Rightarrow> t)"

text \<open>
  The lines of the prompt as the specification lists them: the ingredients line, one
  line for each optional field that is there, the template. A field is there when it
  is neither \<^verbatim>\<open>None\<close> nor empty.
\<close>

definition optional_line :: "string \<Rightarrow> string option \<Rightarrow> string list" where
  "optional_line label field =
     (case field of
        None \<Rightarrow> []
      | Some text \<Rightarrow> if text = [] then [] else [label @ text])"

definition prompt_lines :: "RecipeRequest \<Rightarrow> string list" where
  "prompt_lines request =
     [''Create a detailed recipe using these ingredients: '' @ join '', '' (ingredients request)]
     @ (case dietary_restrictions request of
          None \<Rightarrow> []
        | Some rs \<Rightarrow> if rs = [] then [] else [''Dietary restrictions: '' @ join '', '' rs])
     @ optional_line ''Cuisine type: '' (cuisine_type request)
     @ optional_line ''Meal type: '' (meal_type request)
     @ optional_line ''Cooking time preference: '' (cooking_time request)
     @ [recipe_template]"

text \<open>
  The same lines with "present" read as "not \<^verbatim>\<open>None\<close>": an optional text that is
  there gets its line, the empty one too.
\<close>

definition present_line :: "string \<Rightarrow> string option \<Rightarrow> string list" where
  "present_line label field = (case field of None \<Rightarrow> [] | Some text \<Rightarrow> [label @ text])"

definition stated_prompt_lines :: "RecipeRequest \<Rightarrow> string list" where
  "stated_prompt_lines request =
     [''Create a detailed recipe using these ingredients: '' @ join '', '' (ingredients request)]
     @ (case dietary_restrictions request of
          None \<Rightarrow> []
        | Some rs \<Rightarrow> if rs = [] then [] else [''Dietary restrictions: '' @ join '', '' rs])
     @ present_line ''Cuisine type: '' (cuisine_type request)
     @ present_line ''Meal type: '' (meal_type request)
     @ present_line ''Cooking time preference: '' (cooking_time request)
     @ [recipe_template]"

text \<open>
  Reading a recipe record: the \<^verbatim>\<open>step\<close> of each entry of its
  \<^verbatim>\<open>instructions\<close>, \<open>None\<close> where the record has no such list or an entry no step.
\<close>

fun step_of :: "pyval \<Rightarrow> pyval option" where
  "step_of (PDict kvs) = map_of kvs ''step''"
| "step_of v = None"

definition instruction_steps :: "(string \<times> pyval) list \<Rightarrow> pyval option list option" where
  "instruction_steps r =
     (case map_of r ''instructions'' of
        Some (PList entries) \<Rightarrow> Some (map step_of entries)
      | _ \<Rightarrow> None)"

text \<open>The entry the fallback writes for one requested ingredient.\<close>

definition portion :: "string \<Rightarrow> pyval" where
  "portion ing =
     PDict [(''item'', PStr ing), (''amount'', PStr ''1-2''), (''unit'', PStr ''portions'')]"

section \<open>An example environment\<close>

text \<open>
  Concrete collaborators for running the handlers. An agent that answers every prompt
  with one result, and a constructor that raises.
\<close>

definition answering :: "AgentResult \<Rightarrow> string list \<Rightarrow> agent" where
  "answering result caps =
     \<lparr> execute = (\<lambda>prompt use_tools. Inr result), get_capabilities = Inr caps \<rparr>"

definition raising :: "string \<Rightarrow> exn + 'a" where
  "raising text = Inl (Exn OtherException text)"

text \<open>
  \<^verbatim>\<open>json.loads\<close> at the texts the examples use: the JSON literal \<^verbatim>\<open>null\<close>, a
  complete recipe object, an object with one key. Any other text the examples pass is
  no JSON document (\<^verbatim>\<open>I cannot help with that.\<close>), and \<^verbatim>\<open>json.loads\<close>
  raises on it at its first character.
\<close>

definition thai_json :: string where
  \<open>thai_json = concat
      [''{"name":"Thai Chicken Rice","description":"...","prep_time":"10m",'',
       ''"cook_time":"20m","servings":"2","difficulty":"Easy",'',
       ''"ingredients":[],"instructions":[]}'']\<close>

definition thai_record :: "(string \<times> pyval) list" where
  "thai_record =
     [(''name'', PStr ''Thai Chicken Rice''), (''description'', PStr ''...''),
      (''prep_time'', PStr ''10m''), (''cook_time'', PStr ''20m''), (''servings'', PStr ''2''),
      (''difficulty'', PStr ''Easy''), (''ingredients'', PList []), (''instructions'', PList [])]"

definition soup_json :: string where
  \<open>soup_json = ''{"name": "Soup"}''\<close>

definition example_loads :: "string \<Rightarrow> exn + pyval" where
  "example_loads s =
     (if s = ''null'' then Inr PNone
      else if s = thai_json then Inr (PDict thai_record)
      else if s = soup_json then Inr (PDict [(''name'', PStr ''Soup'')])
      else Inl (Exn JSONDecodeError ''Expecting value: line 1 column 1 (char 0)''))"

text \<open>
  \<^verbatim>\<open>s.title()\<close> on ASCII text, which is what the examples pass: a letter is
  upper-cased when the character before it is no letter and lower-cased when it is;
  every other character stays as it is.
\<close>

definition islower :: "char \<Rightarrow> bool" where
  "islower c = (let n = (of_char c :: nat) in 97 \<le> n \<and> n \<le> 122)"

definition isupper :: "char \<Rightarrow> bool" where
  "isupper c = (let n = (of_char c :: nat) in 65 \<le> n \<and> n \<le> 90)"

definition upper :: "char \<Rightarrow> char" where
  "upper c = (if islower c then char_of (of_char c - (32 :: nat)) else c)"

definition lower :: "char \<Rightarrow> char" where
  "lower c = (if isupper c then char_of (of_char c + (32 :: nat)) else c)"

fun title_from :: "bool \<Rightarrow> string \<Rightarrow> string" where
  "title_from previous_is_cased [] = []"
| "title_from previous_is_cased (c # cs) =
     (if previous_is_cased then lower c else upper c)
       # title_from (islower c \<or> isupper c) cs"

definition example_title :: "string \<Rightarrow> string" where
  "example_title s = title_from False s"

text \<open>The decimal numeral of a status code.\<close>

fun decimal :: "nat \<Rightarrow> string" where
  "decimal n =
     (if n < 10 then [char_of (48 + n)]
      else decimal (n div 10) @ [char_of (48 + n mod 10)])"

text \<open>The type name CPython prints for a value.\<close>

fun type_name :: "pyval \<Rightarrow> string" where
  "type_name PNone = ''NoneType''"
| "type_name (PBool b) = ''bool''"
| "type_name (PInt i) = ''int''"
| "type_name (PFloat f) = ''float''"
| "type_name (PStr s) = ''str''"
| "type_name (PList xs) = ''list''"
| "type_name (PDict kvs) = ''dict''"

fun example_int :: "pyval \<Rightarrow> exn + int" where
  "example_int (PInt i) = Inr i"
| "example_int v = Inl (Exn ValidationError ''1 validation error for SearchResponse'')"

text \<open>
  The environment of the examples, by its three constructors. The texts are those of
  Starlette's \<^verbatim>\<open>HTTPException.__str__\<close> and of CPython 3.11's membership
  \<^verbatim>\<open>TypeError\<close>; of pydantic's report only the first line is kept.
\<close>

definition example_env :: "exn + agent \<Rightarrow> exn + agent \<Rightarrow> exn + agent \<Rightarrow> env" where
  "example_env search chat recipe_ctor =
     \<lparr> SearchAgent = search,
       ChatAgent = chat,
       RecipeAgent = recipe_ctor,
       json_loads = example_loads,
       str_title = example_title,
       HTTPException_str = (\<lambda>status detail. decimal status @ '': '' @ detail),
       not_iterable_str = (\<lambda>v. ''argument of type '' @ [CHR 0x27] @ type_name v @ [CHR 0x27]
                                   @ '' is not iterable''),
       not_a_dict_str = (\<lambda>v. ''1 validation error for RecipeResponse''),
       validate_int = example_int \<rparr>"

definition no_agents :: globals where
  "no_agents = \<lparr> search_agent = None, chat_agent = None, recipe_agent = None \<rparr>"

definition chicken_rice :: RecipeRequest where
  "chicken_rice =
     \<lparr> ingredients = [''chicken'', ''rice''],
       dietary_restrictions = Some [],
       cuisine_type = Some ''thai'',
       meal_type = None,
       cooking_time = None \<rparr>"

definition answer :: "string \<Rightarrow> AgentResult" where
  "answer text =
     \<lparr> AgentResult.success = True, content = text, AgentResult.metadata = [],
       AgentResult.error = None \<rparr>"

definition failure :: "string \<Rightarrow> AgentResult" where
  "failure text =
     \<lparr> AgentResult.success = False, content = [], AgentResult.metadata = [],
       AgentResult.error = Some text \<rparr>"

text \<open>Named pieces of the examples.\<close>

definition unconfigured :: "exn + agent" where
  "unconfigured = raising ''missing configuration''"

definition rate_limited :: agent where
  "rate_limited = answering (failure ''rate limited'') [''web_search'']"

definition greeter :: agent where
  "greeter = answering (answer ''hello'') [''conversation'']"

definition refusing :: agent where
  "refusing = answering (answer ''I cannot help with that.'') [''recipes'']"

definition thai_cook :: agent where
  "thai_cook = answering (answer (''Here you go: '' @ thai_json)) [''recipes'']"

definition null_agent :: agent where
  "null_agent = answering (answer ''null'') [''recipes'']"

definition blank_cuisine :: RecipeRequest where
  "blank_cuisine =
     \<lparr> ingredients = [''egg''],
       dietary_restrictions = None,
       cuisine_type = Some [],
       meal_type = None,
       cooking_time = None \<rparr>"

definition recipe_env :: "agent \<Rightarrow> env" where
  "recipe_env a = example_env unconfigured unconfigured (Inr a)"

definition search_env :: "agent \<Rightarrow> env" where
  "search_env a = example_env (Inr a) unconfigured unconfigured"

definition chat_env :: "agent \<Rightarrow> env" where
  "chat_env a = example_env unconfigured (Inr a) unconfigured"

definition unconfigured_env :: env where
  "unconfigured_env = example_env unconfigured unconfigured unconfigured"

definition rust_ownership :: SearchRequest where
  "rust_ownership = \<lparr> SearchRequest.query = ''rust ownership'', max_results = 5 \<rparr>"

definition translate_request :: ChatRequest where
  "translate_request =
     \<lparr> message = ''hi'', ChatRequest.agent_type = ''translate'', context = None \<rparr>"

definition chat_request :: ChatRequest where
  "chat_request = \<lparr> message = ''hi'', ChatRequest.agent_type = ''chat'', context = None \<rparr>"

definition translate_response :: ChatResponse where
  "translate_response =
     \<lparr> ChatResponse.success = True,
       response = ''hello'',
       ChatResponse.agent_type = ''translate'',
       capabilities = [''conversation''],
       ChatResponse.metadata = [],
       ChatResponse.error = None \<rparr>"

section \<open>Helper lemmas\<close>

lemma try_except_Inr: "try_except (Inr v) m h = Inr v"
  by (simp add: try_except_def)

lemma try_except_Exception: "try_except (Inl e) is_Exception h = h e"
  by (simp add: try_except_def is_Exception_def)

subsection \<open>The regular expression finds the span from the first brace to the last\<close>

lemma upto_last_Nil: "upto_last c s = [] \<longleftrightarrow> c \<notin> set s"
  by (auto simp: upto_last_def dropWhile_eq_Nil_conv)

lemma upto_last_decomp:
  assumes "c \<in> set s"
  shows "\<exists>m post. s = m @ c # post \<and> c \<notin> set post \<and> upto_last c s = m @ [c]"
proof -
  from assms have "c \<in> set (rev s)" by simp
  then obtain ys zs where r: "rev s = ys @ c # zs" and n: "c \<notin> set ys"
    by (meson split_list_first)
  have d: "dropWhile (\<lambda>x. x \<noteq> c) (rev s) = c # zs"
    using r n by (auto simp: dropWhile_append3)
  have s: "s = rev zs @ c # rev ys"
    using r by (metis rev_rev_ident rev_append rev.simps(2) append_Cons append_Nil append_assoc)
  show ?thesis
    using s n d by (intro exI[of _ "rev zs"] exI[of _ "rev ys"]) (simp add: upto_last_def)
qed

lemma last_index_decomp:
  assumes "c \<notin> set post"
  shows "last_index c (m @ c # post) = Some (length m)"
proof -
  have "takeWhile (\<lambda>x. x \<noteq> c) (rev (m @ c # post)) = rev post"
    using assms by (auto simp: takeWhile_append2 takeWhile_tail)
  then show ?thesis by (simp add: last_index_def)
qed

lemma first_index_decomp:
  assumes "c \<notin> set pre"
  shows "first_index c (pre @ c # rest) = Some (length pre)"
proof -
  have "takeWhile (\<lambda>x. x \<noteq> c) (pre @ c # rest) = pre"
    using assms by (auto simp: takeWhile_tail)
  then show ?thesis by (simp add: first_index_def)
qed

lemma span_of_search:
  "(case re_search t of Some m \<Rightarrow> m | None \<Rightarrow> t) =
     (case (first_index CHR ''{'' t, last_index CHR ''}'' t) of
        (Some i, Some j) \<Rightarrow> if i < j then take (j + 1 - i) (drop i t) else t
      | _ \<Rightarrow> t)"
proof (cases "CHR ''{'' \<in> set t")
  case False
  then have "dropWhile (\<lambda>x. x \<noteq> CHR ''{'') t = []"
    by (auto simp: dropWhile_eq_Nil_conv)
  then have "re_search t = None"
    unfolding re_search_def by (simp only: list.case)
  with False show ?thesis by (simp add: first_index_def)
next
  case True
  then obtain pre rest where t: "t = pre @ CHR ''{'' # rest" and pre: "CHR ''{'' \<notin> set pre"
    by (meson split_list_first)
  have d: "dropWhile (\<lambda>x. x \<noteq> CHR ''{'') t = CHR ''{'' # rest"
    using t pre by (auto simp: dropWhile_append3)
  have fi: "first_index CHR ''{'' t = Some (length pre)"
    using t pre first_index_decomp by simp
  show ?thesis
  proof (cases "CHR ''}'' \<in> set rest")
    case True
    then obtain m post where rest: "rest = m @ CHR ''}'' # post"
      and post: "CHR ''}'' \<notin> set post"
      and u: "upto_last CHR ''}'' rest = m @ [CHR ''}'']"
      using upto_last_decomp by blast
    have "t = (pre @ CHR ''{'' # m) @ CHR ''}'' # post"
      using t rest by simp
    then have li: "last_index CHR ''}'' t = Some (length (pre @ CHR ''{'' # m))"
      using post last_index_decomp by metis
    have rs: "re_search t = Some (CHR ''{'' # m @ [CHR ''}''])"
      using d u by (simp add: re_search_def split: list.splits)
    show ?thesis using fi li rs t rest by simp
  next
    case False
    then have u: "upto_last CHR ''}'' rest = []"
      by (simp add: upto_last_Nil)
    have rs: "re_search t = None"
      using d u by (simp add: re_search_def)
    show ?thesis
    proof (cases "CHR ''}'' \<in> set pre")
      case False
      with \<open>CHR ''}'' \<notin> set rest\<close> t have "CHR ''}'' \<notin> set t" by auto
      then show ?thesis using rs fi by (simp add: last_index_def)
    next
      case True
      then obtain m post where p: "pre = m @ CHR ''}'' # post"
        and post: "CHR ''}'' \<notin> set post"
        using upto_last_decomp by blast
      have "CHR ''}'' \<notin> set (post @ CHR ''{'' # rest)"
        using post \<open>CHR ''}'' \<notin> set rest\<close> by simp
      moreover have "t = m @ CHR ''}'' # (post @ CHR ''{'' # rest)"
        using t p by simp
      ultimately have li: "last_index CHR ''}'' t = Some (length m)"
        using last_index_decomp by metis
      show ?thesis using rs fi li p by simp
    qed
  qed
qed

lemma json_str_candidate: "json_str raw = candidate raw"
  by (simp add: json_str_def candidate_def Let_def span_of_search)

subsection \<open>The loop over the required fields, on a dict\<close>

lemma validate_fields_present:
  "set fs \<subseteq> fst ` set kvs \<Longrightarrow> validate_fields env fs (PDict kvs) = Inr ()"
  by (induction fs) auto

lemma validate_fields_missing:
  "\<not> set fs \<subseteq> fst ` set kvs \<Longrightarrow>
     \<exists>f. validate_fields env fs (PDict kvs) = Inl (Exn ValueError f)"
proof (induction fs)
  case Nil
  then show ?case by simp
next
  case (Cons a fs)
  show ?case
  proof (cases "a \<in> fst ` set kvs")
    case True
    with Cons.prems have "\<not> set fs \<subseteq> fst ` set kvs" by simp
    from Cons.IH [OF this] True show ?thesis by simp
  next
    case False
    then show ?thesis by simp
  qed
qed

lemma extract_recipe_fallback:
  assumes "(\<exists>e. json_loads env s = Inl e \<and> is_ValueError (cls e))
           \<or> (\<exists>kvs. json_loads env s = Inr (PDict kvs)
                     \<and> \<not> set required_fields \<subseteq> fst ` set kvs)"
  shows "extract_recipe env request s = Inr (PDict (fallback_recipe env request))"
  using assms
proof
  assume "\<exists>e. json_loads env s = Inl e \<and> is_ValueError (cls e)"
  then show ?thesis
    by (auto simp: extract_recipe_def parse_recipe_def try_except_def)
next
  assume "\<exists>kvs. json_loads env s = Inr (PDict kvs) \<and> \<not> set required_fields \<subseteq> fst ` set kvs"
  then obtain kvs where l: "json_loads env s = Inr (PDict kvs)"
    and m: "\<not> set required_fields \<subseteq> fst ` set kvs" by blast
  from validate_fields_missing [OF m] obtain f
    where "validate_fields env required_fields (PDict kvs) = Inl (Exn ValueError f)" by blast
  with l show ?thesis
    by (simp add: extract_recipe_def parse_recipe_def try_except_def)
qed

text \<open>
  Where the fallback is reached from the handler: \<^verbatim>\<open>json.loads\<close> raises a
  \<^verbatim>\<open>ValueError\<close> (its \<^verbatim>\<open>JSONDecodeError\<close> is one) or returns a dict that lacks
  a required key. The response then carries the fallback record, whose
  \<^verbatim>\<open>ingredients\<close> are one entry for each requested ingredient, in the order of the
  request, each with amount \<^verbatim>\<open>1-2\<close> and unit \<^verbatim>\<open>portions\<close>.
\<close>

lemma fallback_ingredients:
  assumes "recipe_init env g = Inr (g', a)"
    and "execute a (recipe_prompt request) False = Inr result"
    and "AgentResult.success result"
    and "(\<exists>e. json_loads env (json_str (content result)) = Inl e \<and> is_ValueError (cls e))
         \<or> (\<exists>kvs. json_loads env (json_str (content result)) = Inr (PDict kvs)
                   \<and> \<not> set required_fields \<subseteq> fst ` set kvs)"
  shows "generate_recipe env g request =
           (g', Inr \<lparr> RecipeResponse.success = True, recipe = fallback_recipe env request,
                      RecipeResponse.error = None \<rparr>)
         \<and> map_of (fallback_recipe env request) ''ingredients''
             = Some (PList (map portion (ingredients request)))"
proof -
  have "extract_recipe env request (json_str (content result))
          = Inr (PDict (fallback_recipe env request))"
    using assms(4) by (rule extract_recipe_fallback)
  then have "generate_recipe env g request =
           (g', Inr \<lparr> RecipeResponse.success = True, recipe = fallback_recipe env request,
                      RecipeResponse.error = None \<rparr>)"
    using assms(1-3)
    by (simp add: try_except_Inr try_except_Exception generate_recipe_def recipe_body_def
        recipe_run_def RecipeResponse_init_def)
  moreover have "map_of (fallback_recipe env request) ''ingredients''
             = Some (PList (map portion (ingredients request)))"
    by (simp add: fallback_recipe_def portion_def)
  ultimately show ?thesis by simp
qed

lemma fallback_steps:
  "instruction_steps (fallback_recipe env request)
     = Some [Some (PInt 1), Some (PInt 2), Some (PInt 3), Some (PInt 4), Some (PInt 5)]"
  by (simp add: instruction_steps_def fallback_recipe_def)

subsection \<open>Every exception that leaves the try block of the chat handler\<close>

lemma chat_body_raises:
  assumes "chat_body env g request = (g', Inl e)"
  shows "(ChatRequest.agent_type request = ''search'' \<and> search_agent g = None
              \<and> SearchAgent env = Inl e \<and> g' = g)
         \<or> (ChatRequest.agent_type request = ''chat'' \<and> chat_agent g = None
              \<and> ChatAgent env = Inl e \<and> g' = g)
         \<or> (ChatRequest.agent_type request \<noteq> ''search''
              \<and> ChatRequest.agent_type request \<noteq> ''chat'' \<and> chat_agent g = None
              \<and> e = Exn HTTPException (HTTPException_str env 500 ''Failed to initialize agent'')
              \<and> g' = g)
         \<or> (\<exists>a. ((ChatRequest.agent_type request = ''search'' \<and> search_agent g = Some a
                     \<and> g' = g)
                  \<or> (ChatRequest.agent_type request = ''search'' \<and> search_agent g = None
                     \<and> SearchAgent env = Inr a \<and> g' = g\<lparr>search_agent := Some a\<rparr>)
                  \<or> (ChatRequest.agent_type request \<noteq> ''search'' \<and> chat_agent g = Some a
                     \<and> g' = g)
                  \<or> (ChatRequest.agent_type request = ''chat'' \<and> chat_agent g = None
                     \<and> ChatAgent env = Inr a \<and> g' = g\<lparr>chat_agent := Some a\<rparr>))
                \<and> (execute a (message request) False = Inl e
                    \<or> (\<exists>r. execute a (message request) False = Inr r
                             \<and> get_capabilities a = Inl e)))"
  using assms
  by (auto simp: chat_body_def chat_init_def chat_run_def
      split: if_splits sum.splits option.splits)

section \<open>Recipe extraction\<close>

text \<open>
  Claim C1 says that whenever the recipe agent succeeds, \<^verbatim>\<open>/recipes/generate\<close> answers
  \<^verbatim>\<open>success=True\<close> with a complete record, whatever text the agent returned. The
  handler does not: when the text is a JSON document that is \<^verbatim>\<open>null\<close>, a bool or a
  number, \<^verbatim>\<open>field not in recipe_data\<close> raises \<^verbatim>\<open>TypeError\<close>, which the inner
  \<^verbatim>\<open>except (json.JSONDecodeError, ValueError)\<close> does not catch; the outer
  \<^verbatim>\<open>except Exception\<close> does, and the response has \<^verbatim>\<open>success=False\<close> and the
  empty record.
\<close>

theorem scalar_json_escapes_fallback:
  assumes "recipe_init env g = Inr (g', a)"
    and "execute a (recipe_prompt request) False = Inr result"
    and "AgentResult.success result"
    and "json_loads env (json_str (content result)) = Inr v"
    and "\<not> is_container v"
  shows "generate_recipe env g request =
           (g', Inr \<lparr> RecipeResponse.success = False, recipe = [],
                      RecipeResponse.error = Some (not_iterable_str env v) \<rparr>)"
proof -
  have c: "validate_fields env required_fields v = Inl (Exn TypeError (not_iterable_str env v))"
    using assms(5) by (cases v) (simp_all add: required_fields_def)
  have "extract_recipe env request (json_str (content result))
          = Inl (Exn TypeError (not_iterable_str env v))"
    using assms(4) c by (simp add: extract_recipe_def parse_recipe_def try_except_def)
  then show ?thesis
    using assms(1-3)
    by (simp add: try_except_Inr try_except_Exception generate_recipe_def recipe_body_def
        recipe_run_def recipe_failed_def)
qed

theorem scalar_json_escapes_fallback_witness:
  "recipe_init (recipe_env null_agent) no_agents
     = Inr (no_agents\<lparr>recipe_agent := Some null_agent\<rparr>, null_agent)
   \<and> execute null_agent (recipe_prompt chicken_rice) False = Inr (answer ''null'')
   \<and> AgentResult.success (answer ''null'')
   \<and> json_loads (recipe_env null_agent) (json_str (content (answer ''null''))) = Inr PNone
   \<and> \<not> is_container PNone
   \<and> generate_recipe (recipe_env null_agent) no_agents chicken_rice
     = (no_agents\<lparr>recipe_agent := Some null_agent\<rparr>,
        Inr \<lparr> RecipeResponse.success = False, recipe = [],
              RecipeResponse.error = Some (''argument of type '' @ [CHR 0x27] @ ''NoneType''
                                           @ [CHR 0x27] @ '' is not iterable'') \<rparr>)"
proof -
  have h1: "recipe_init (recipe_env null_agent) no_agents
              = Inr (no_agents\<lparr>recipe_agent := Some null_agent\<rparr>, null_agent)"
    by (simp add: recipe_init_def no_agents_def recipe_env_def example_env_def)
  have h2: "execute null_agent (recipe_prompt chicken_rice) False = Inr (answer ''null'')"
    by (simp add: null_agent_def answering_def)
  have h3: "AgentResult.success (answer ''null'')"
    by (simp add: answer_def)
  have h4: "json_loads (recipe_env null_agent) (json_str (content (answer ''null''))) = Inr PNone"
    by (simp add: answer_def json_str_def strip_def isspace_def re_search_def recipe_env_def
        example_env_def example_loads_def)
  have h5: "\<not> is_container PNone"
    by simp
  have m: "not_iterable_str (recipe_env null_agent) PNone
             = ''argument of type '' @ [CHR 0x27] @ ''NoneType'' @ [CHR 0x27] @ '' is not iterable''"
    by (simp add: recipe_env_def example_env_def)
  show ?thesis
    using h1 h2 h3 h4 h5 scalar_json_escapes_fallback [OF h1 h2 h3 h4 h5]
    by (simp add: m)
qed

text \<open>
  Claim C2. When the recipe agent succeeds and the candidate text (the trimmed content,
  cut to the span from its first \<^verbatim>\<open>{\<close> to its last \<^verbatim>\<open>}\<close> when there is one)
  parses as a record with all eight required keys, the response has \<^verbatim>\<open>success=True\<close>
  and its recipe is that record, as parsed.
\<close>

theorem parsed_recipe_unchanged:
  assumes "recipe_init env g = Inr (g', a)"
    and "execute a (recipe_prompt request) False = Inr result"
    and "AgentResult.success result"
    and "json_loads env (candidate (content result)) = Inr (PDict kvs)"
    and "set required_fields \<subseteq> fst ` set kvs"
  shows "generate_recipe env g request =
           (g', Inr \<lparr> RecipeResponse.success = True, recipe = kvs,
                      RecipeResponse.error = None \<rparr>)"
proof -
  have "json_loads env (json_str (content result)) = Inr (PDict kvs)"
    using assms(4) by (simp add: json_str_candidate)
  moreover have "validate_fields env required_fields (PDict kvs) = Inr ()"
    using assms(5) by (rule validate_fields_present)
  ultimately have "extract_recipe env request (json_str (content result)) = Inr (PDict kvs)"
    by (simp add: extract_recipe_def parse_recipe_def try_except_Inr)
  then show ?thesis
    using assms(1-3)
    by (simp add: try_except_Inr try_except_Exception generate_recipe_def recipe_body_def
        recipe_run_def RecipeResponse_init_def)
qed

theorem parsed_recipe_unchanged_witness:
  "recipe_init (recipe_env thai_cook) no_agents
     = Inr (no_agents\<lparr>recipe_agent := Some thai_cook\<rparr>, thai_cook)
   \<and> execute thai_cook (recipe_prompt chicken_rice) False
     = Inr (answer (''Here you go: '' @ thai_json))
   \<and> AgentResult.success (answer (''Here you go: '' @ thai_json))
   \<and> json_loads (recipe_env thai_cook) (candidate (content (answer (''Here you go: '' @ thai_json))))
     = Inr (PDict thai_record)
   \<and> set required_fields \<subseteq> fst ` set thai_record
   \<and> generate_recipe (recipe_env thai_cook) no_agents chicken_rice
     = (no_agents\<lparr>recipe_agent := Some thai_cook\<rparr>,
        Inr \<lparr> RecipeResponse.success = True, recipe = thai_record,
              RecipeResponse.error = None \<rparr>)"
proof -
  let ?r = "answer (''Here you go: '' @ thai_json)"
  have h1: "recipe_init (recipe_env thai_cook) no_agents
              = Inr (no_agents\<lparr>recipe_agent := Some thai_cook\<rparr>, thai_cook)"
    by (simp add: recipe_init_def no_agents_def recipe_env_def example_env_def)
  have h2: "execute thai_cook (recipe_prompt chicken_rice) False = Inr ?r"
    by (simp add: thai_cook_def answering_def)
  have h3: "AgentResult.success ?r"
    by (simp add: answer_def)
  have c: "candidate (''Here you go: '' @ thai_json) = thai_json"
    by (simp add: candidate_def strip_def isspace_def first_index_def last_index_def
        thai_json_def)
  have n: "thai_json \<noteq> ''null''"
    by (simp add: thai_json_def)
  have h4: "json_loads (recipe_env thai_cook) (candidate (content ?r)) = Inr (PDict thai_record)"
    using c n by (simp add: answer_def recipe_env_def example_env_def example_loads_def)
  have h5: "set required_fields \<subseteq> fst ` set thai_record"
    by (simp add: required_fields_def thai_record_def)
  show ?thesis
    using h1 h2 h3 h4 h5 parsed_recipe_unchanged [OF h1 h2 h3 h4 h5] by simp
qed

section \<open>The fallback record\<close>

text \<open>
  Claim C5 says that whenever the recipe agent succeeds and its content fails to parse
  or lacks a required key, the response carries the fallback record with one
  \<^verbatim>\<open>ingredients\<close> entry for each requested ingredient. The handler does so when
  \<^verbatim>\<open>json.loads\<close> raises a \<^verbatim>\<open>ValueError\<close> or returns a dict without one of the
  keys (\<open>fallback_ingredients\<close>). It does not when the content is the JSON document
  \<^verbatim>\<open>null\<close>, a bool or a number, which has no key at all, or when \<^verbatim>\<open>json.loads\<close>
  fails with an exception that is no \<^verbatim>\<open>ValueError\<close>: the exception passes the inner
  \<^verbatim>\<open>except\<close> clause, and the response has \<^verbatim>\<open>success=False\<close> and the empty
  record, in which there is no \<^verbatim>\<open>ingredients\<close> field.
\<close>

theorem unparsed_content_without_ingredients:
  assumes "recipe_init env g = Inr (g', a)"
    and "execute a (recipe_prompt request) False = Inr result"
    and "AgentResult.success result"
    and "(\<exists>v. json_loads env (json_str (content result)) = Inr v \<and> \<not> is_container v)
         \<or> (\<exists>e. json_loads env (json_str (content result)) = Inl e
                  \<and> \<not> is_JSONDecodeError (cls e) \<and> \<not> is_ValueError (cls e))"
  shows "\<exists>r. generate_recipe env g request = (g', Inr r)
             \<and> \<not> RecipeResponse.success r
             \<and> recipe r = []
             \<and> map_of (recipe r) ''ingredients'' = None"
  using assms(4)
proof
  assume "\<exists>v. json_loads env (json_str (content result)) = Inr v \<and> \<not> is_container v"
  then obtain v where l: "json_loads env (json_str (content result)) = Inr v"
    and n: "\<not> is_container v" by blast
  have c: "validate_fields env required_fields v = Inl (Exn TypeError (not_iterable_str env v))"
    using n by (cases v) (simp_all add: required_fields_def)
  have "extract_recipe env request (json_str (content result))
          = Inl (Exn TypeError (not_iterable_str env v))"
    using l c by (simp add: extract_recipe_def parse_recipe_def try_except_def)
  then show ?thesis
    using assms(1-3)
    by (simp add: try_except_Inr try_except_Exception generate_recipe_def recipe_body_def
        recipe_run_def recipe_failed_def)
next
  assume "\<exists>e. json_loads env (json_str (content result)) = Inl e
              \<and> \<not> is_JSONDecodeError (cls e) \<and> \<not> is_ValueError (cls e)"
  then obtain e where l: "json_loads env (json_str (content result)) = Inl e"
    and n: "\<not> is_JSONDecodeError (cls e)" "\<not> is_ValueError (cls e)" by blast
  have "extract_recipe env request (json_str (content result)) = Inl e"
    using l n by (simp add: extract_recipe_def parse_recipe_def try_except_def)
  then show ?thesis
    using assms(1-3)
    by (simp add: try_except_Inr try_except_Exception generate_recipe_def recipe_body_def
        recipe_run_def recipe_failed_def)
qed

theorem unparsed_content_without_ingredients_witness:
  "recipe_init (recipe_env null_agent) no_agents
     = Inr (no_agents\<lparr>recipe_agent := Some null_agent\<rparr>, null_agent)
   \<and> execute null_agent (recipe_prompt chicken_rice) False = Inr (answer ''null'')
   \<and> AgentResult.success (answer ''null'')
   \<and> json_loads (recipe_env null_agent) (json_str (content (answer ''null''))) = Inr PNone
   \<and> \<not> is_container PNone
   \<and> (\<exists>r. generate_recipe (recipe_env null_agent) no_agents chicken_rice
              = (no_agents\<lparr>recipe_agent := Some null_agent\<rparr>, Inr r)
            \<and> \<not> RecipeResponse.success r
            \<and> recipe r = []
            \<and> map_of (recipe r) ''ingredients'' = None)
   \<and> ingredients chicken_rice = [''chicken'', ''rice'']"
proof -
  have h1: "recipe_init (recipe_env null_agent) no_agents
              = Inr (no_agents\<lparr>recipe_agent := Some null_agent\<rparr>, null_agent)"
    by (simp add: recipe_init_def no_agents_def recipe_env_def example_env_def)
  have h2: "execute null_agent (recipe_prompt chicken_rice) False = Inr (answer ''null'')"
    by (simp add: null_agent_def answering_def)
  have h3: "AgentResult.success (answer ''null'')"
    by (simp add: answer_def)
  have l: "json_loads (recipe_env null_agent) (json_str (content (answer ''null''))) = Inr PNone"
    by (simp add: answer_def json_str_def strip_def isspace_def re_search_def recipe_env_def
        example_env_def example_loads_def)
  have n: "\<not> is_container PNone"
    by simp
  have h4: "(\<exists>v. json_loads (recipe_env null_agent) (json_str (content (answer ''null''))) = Inr v
                \<and> \<not> is_container v)
         \<or> (\<exists>e. json_loads (recipe_env null_agent) (json_str (content (answer ''null''))) = Inl e
                  \<and> \<not> is_JSONDecodeError (cls e) \<and> \<not> is_ValueError (cls e))"
    using l n by blast
  have i: "ingredients chicken_rice = [''chicken'', ''rice'']"
    by (simp add: chicken_rice_def)
  show ?thesis
    using h1 h2 h3 l n i unparsed_content_without_ingredients [OF h1 h2 h3 h4] by simp
qed

text \<open>
  Claim C6. Whenever the fallback is activated, that is, the inner \<^verbatim>\<open>try\<close> raises an
  exception its \<^verbatim>\<open>except\<close> clause catches, the record produced is the fallback
  record, and its \<^verbatim>\<open>instructions\<close> field has exactly five entries, with the step
  numbers 1, 2, 3, 4, 5 in this order.
\<close>

theorem fallback_instruction_steps:
  assumes "parse_recipe env s = Inl e"
    and "is_JSONDecodeError (cls e) \<or> is_ValueError (cls e)"
  shows "extract_recipe env request s = Inr (PDict (fallback_recipe env request))
         \<and> instruction_steps (fallback_recipe env request)
             = Some [Some (PInt 1), Some (PInt 2), Some (PInt 3), Some (PInt 4), Some (PInt 5)]"
  using assms by (simp add: extract_recipe_def try_except_def fallback_steps)

theorem fallback_instruction_steps_witness:
  "parse_recipe (recipe_env refusing) ''I cannot help with that.''
     = Inl (Exn JSONDecodeError ''Expecting value: line 1 column 1 (char 0)'')
   \<and> (is_JSONDecodeError (cls (Exn JSONDecodeError ''Expecting value: line 1 column 1 (char 0)''))
       \<or> is_ValueError (cls (Exn JSONDecodeError ''Expecting value: line 1 column 1 (char 0)'')))
   \<and> extract_recipe (recipe_env refusing) chicken_rice ''I cannot help with that.''
     = Inr (PDict (fallback_recipe (recipe_env refusing) chicken_rice))
   \<and> instruction_steps (fallback_recipe (recipe_env refusing) chicken_rice)
     = Some [Some (PInt 1), Some (PInt 2), Some (PInt 3), Some (PInt 4), Some (PInt 5)]"
proof -
  let ?e = "Exn JSONDecodeError ''Expecting value: line 1 column 1 (char 0)''"
  have h1: "parse_recipe (recipe_env refusing) ''I cannot help with that.'' = Inl ?e"
    by (simp add: parse_recipe_def recipe_env_def example_env_def example_loads_def
        thai_json_def soup_json_def)
  have h2: "is_JSONDecodeError (cls ?e) \<or> is_ValueError (cls ?e)"
    by simp
  show ?thesis
    using h1 h2 fallback_instruction_steps [OF h1 h2, of chicken_rice] by simp
qed

section \<open>The recipe prompt\<close>

text \<open>
  Claim C7, as stated: the prompt is the newline-joined list of the ingredients line, one
  line for each of the optional fields that is present, and the template. It fails for
  a request whose \<^verbatim>\<open>cuisine_type\<close> is the empty string: the field is present, and
  the handler's \<^verbatim>\<open>if request.cuisine_type:\<close> adds no line for it.
\<close>

theorem recipe_prompt_lines_counterexample:
  "cuisine_type blank_cuisine = Some []
   \<and> recipe_prompt blank_cuisine
     = ''Create a detailed recipe using these ingredients: egg'' @ ''\<newline>'' @ recipe_template
   \<and> join ''\<newline>'' (stated_prompt_lines blank_cuisine)
     = ''Create a detailed recipe using these ingredients: egg'' @ ''\<newline>''
       @ ''Cuisine type: '' @ ''\<newline>'' @ recipe_template
   \<and> recipe_prompt blank_cuisine \<noteq> join ''\<newline>'' (stated_prompt_lines blank_cuisine)"
proof -
  have c: "cuisine_type blank_cuisine = Some []"
    by (simp add: blank_cuisine_def)
  have p: "recipe_prompt blank_cuisine
     = ''Create a detailed recipe using these ingredients: egg'' @ ''\<newline>'' @ recipe_template"
    by (simp add: recipe_prompt_def append_if_def blank_cuisine_def)
  have q: "join ''\<newline>'' (stated_prompt_lines blank_cuisine)
     = ''Create a detailed recipe using these ingredients: egg'' @ ''\<newline>''
       @ ''Cuisine type: '' @ ''\<newline>'' @ recipe_template"
    by (simp add: stated_prompt_lines_def present_line_def blank_cuisine_def)
  have "recipe_prompt blank_cuisine \<noteq> join ''\<newline>'' (stated_prompt_lines blank_cuisine)"
    unfolding p q by (simp add: recipe_template_def)
  with c p q show ?thesis by simp
qed

text \<open>
  Claim C7, amended: the prompt is the newline-joined list of the ingredients line
  (the ingredients comma-joined in their order), then one line each for
  \<^verbatim>\<open>dietary_restrictions\<close> (comma-joined), \<^verbatim>\<open>cuisine_type\<close>, \<^verbatim>\<open>meal_type\<close> and
  \<^verbatim>\<open>cooking_time\<close>, in this order, each only when the field is neither \<^verbatim>\<open>None\<close>
  nor empty, and last the template.
\<close>

theorem recipe_prompt_lines:
  "recipe_prompt request = join ''\<newline>'' (prompt_lines request)"
  by (cases "dietary_restrictions request"; cases "cuisine_type request";
      cases "meal_type request"; cases "cooking_time request")
     (auto simp: recipe_prompt_def prompt_lines_def optional_line_def append_if_def Let_def
        neq_Nil_conv)

section \<open>Agent-level failure\<close>

text \<open>
  Claim C8. When the recipe agent's \<^verbatim>\<open>execute\<close> returns a result with
  \<^verbatim>\<open>success=False\<close>, the response of \<^verbatim>\<open>/recipes/generate\<close> has
  \<^verbatim>\<open>success=False\<close>, the empty record as its recipe and the agent's error as it is.
  Nothing is parsed on this path, whatever \<^verbatim>\<open>json.loads\<close> would do, and the empty
  record is not the fallback record.
\<close>

theorem recipe_agent_failure:
  assumes "recipe_init env g = Inr (g', a)"
    and "execute a (recipe_prompt request) False = Inr result"
    and "\<not> AgentResult.success result"
  shows "generate_recipe env g request =
           (g', Inr \<lparr> RecipeResponse.success = False, recipe = [],
                      RecipeResponse.error = AgentResult.error result \<rparr>)
         \<and> [] \<noteq> fallback_recipe env request"
  using assms
  by (simp add: try_except_Inr try_except_Exception generate_recipe_def recipe_body_def
      recipe_run_def fallback_recipe_def)

theorem recipe_agent_failure_witness:
  "recipe_init (recipe_env rate_limited) no_agents
     = Inr (no_agents\<lparr>recipe_agent := Some rate_limited\<rparr>, rate_limited)
   \<and> execute rate_limited (recipe_prompt chicken_rice) False = Inr (failure ''rate limited'')
   \<and> \<not> AgentResult.success (failure ''rate limited'')
   \<and> generate_recipe (recipe_env rate_limited) no_agents chicken_rice
     = (no_agents\<lparr>recipe_agent := Some rate_limited\<rparr>,
        Inr \<lparr> RecipeResponse.success = False, recipe = [],
              RecipeResponse.error = Some ''rate limited'' \<rparr>)"
proof -
  have h1: "recipe_init (recipe_env rate_limited) no_agents
              = Inr (no_agents\<lparr>recipe_agent := Some rate_limited\<rparr>, rate_limited)"
    by (simp add: recipe_init_def no_agents_def recipe_env_def example_env_def)
  have h2: "execute rate_limited (recipe_prompt chicken_rice) False = Inr (failure ''rate limited'')"
    by (simp add: rate_limited_def answering_def)
  have h3: "\<not> AgentResult.success (failure ''rate limited'')"
    by (simp add: failure_def)
  show ?thesis
    using h1 h2 h3 recipe_agent_failure [OF h1 h2 h3] by (simp add: failure_def)
qed

text \<open>
  Claim C9. When the search agent's \<^verbatim>\<open>execute\<close> returns a result with
  \<^verbatim>\<open>success=False\<close> and an error text, the response of \<^verbatim>\<open>/search\<close> has
  \<^verbatim>\<open>success=False\<close>, the empty summary, \<^verbatim>\<open>sources_count\<close> 0 and that error text.
\<close>

theorem search_agent_failure:
  assumes "search_init env g = Inr (g', a)"
    and "execute a (search_prompt request) True = Inr result"
    and "\<not> AgentResult.success result"
    and "AgentResult.error result = Some text"
  shows "search_and_summarize env g request =
           (g', Inr \<lparr> SearchResponse.success = False,
                      SearchResponse.query = SearchRequest.query request,
                      summary = [],
                      search_results = None,
                      sources_count = 0,
                      SearchResponse.error = Some text \<rparr>)"
  using assms
  by (simp add: try_except_Inr try_except_Exception search_and_summarize_def search_body_def
      search_run_def)

theorem search_agent_failure_witness:
  "search_init (search_env rate_limited) no_agents
     = Inr (no_agents\<lparr>search_agent := Some rate_limited\<rparr>, rate_limited)
   \<and> execute rate_limited (search_prompt rust_ownership) True = Inr (failure ''rate limited'')
   \<and> \<not> AgentResult.success (failure ''rate limited'')
   \<and> AgentResult.error (failure ''rate limited'') = Some ''rate limited''
   \<and> search_and_summarize (search_env rate_limited) no_agents rust_ownership
     = (no_agents\<lparr>search_agent := Some rate_limited\<rparr>,
        Inr \<lparr> SearchResponse.success = False,
              SearchResponse.query = ''rust ownership'',
              summary = [],
              search_results = None,
              sources_count = 0,
              SearchResponse.error = Some ''rate limited'' \<rparr>)"
proof -
  have h1: "search_init (search_env rate_limited) no_agents
              = Inr (no_agents\<lparr>search_agent := Some rate_limited\<rparr>, rate_limited)"
    by (simp add: search_init_def no_agents_def search_env_def example_env_def)
  have h2: "execute rate_limited (search_prompt rust_ownership) True = Inr (failure ''rate limited'')"
    by (simp add: rate_limited_def answering_def)
  have h3: "\<not> AgentResult.success (failure ''rate limited'')"
    by (simp add: failure_def)
  have h4: "AgentResult.error (failure ''rate limited'') = Some ''rate limited''"
    by (simp add: failure_def)
  show ?thesis
    using h1 h2 h3 h4 search_agent_failure [OF h1 h2 h3 h4]
    by (simp add: rust_ownership_def)
qed

section \<open>The chat handler\<close>

text \<open>
  Claim C3, as stated: for an \<^verbatim>\<open>agent_type\<close> that is neither \<^verbatim>\<open>chat\<close> nor
  \<^verbatim>\<open>search\<close>, the \<^verbatim>\<open>agent_type\<close> of the response is \<^verbatim>\<open>chat\<close>. It fails:
  with the chat agent in place the request \<^verbatim>\<open>translate\<close> is answered by the chat
  agent, and the response says \<^verbatim>\<open>translate\<close>.
\<close>

theorem chat_unrecognized_type_counterexample:
  "ChatRequest.agent_type translate_request \<noteq> ''chat''
   \<and> ChatRequest.agent_type translate_request \<noteq> ''search''
   \<and> snd (chat_with_agent (chat_env greeter) (no_agents\<lparr>chat_agent := Some greeter\<rparr>)
            translate_request) = Inr translate_response
   \<and> ChatResponse.agent_type translate_response \<noteq> ''chat''"
  by (simp add: try_except_Inr try_except_Exception chat_with_agent_def chat_body_def
      chat_init_def chat_run_def translate_request_def
      translate_response_def greeter_def answering_def answer_def no_agents_def)

text \<open>
  Claim C3, amended: for an \<^verbatim>\<open>agent_type\<close> that is neither \<^verbatim>\<open>chat\<close> nor
  \<^verbatim>\<open>search\<close>, made when the chat agent has been constructed, the handler runs the
  chat agent's \<^verbatim>\<open>execute\<close> on the message and answers with its result and the chat
  agent's capabilities, or with the failure response when one of the two calls raises.
  In each case the \<^verbatim>\<open>agent_type\<close> of the response is the request's own value, and
  the globals stay as they are.
\<close>

theorem chat_unrecognized_type:
  assumes "ChatRequest.agent_type request \<noteq> ''chat''"
    and "ChatRequest.agent_type request \<noteq> ''search''"
    and "chat_agent g = Some a"
  shows "chat_with_agent env g request =
           (g, Inr (case execute a (message request) False of
                      Inl e \<Rightarrow>
                        \<lparr> ChatResponse.success = False,
                          response = [],
                          ChatResponse.agent_type = ChatRequest.agent_type request,
                          capabilities = [],
                          ChatResponse.metadata = [],
                          ChatResponse.error = Some (str e) \<rparr>
                    | Inr r \<Rightarrow>
                        (case get_capabilities a of
                           Inl e \<Rightarrow>
                             \<lparr> ChatResponse.success = False,
                               response = [],
                               ChatResponse.agent_type = ChatRequest.agent_type request,
                               capabilities = [],
                               ChatResponse.metadata = [],
                               ChatResponse.error = Some (str e) \<rparr>
                         | Inr caps \<Rightarrow>
                             \<lparr> ChatResponse.success = AgentResult.success r,
                               response = content r,
                               ChatResponse.agent_type = ChatRequest.agent_type request,
                               capabilities = caps,
                               ChatResponse.metadata = AgentResult.metadata r,
                               ChatResponse.error = AgentResult.error r \<rparr>)))"
  using assms
  by (simp add: try_except_Inr try_except_Exception chat_with_agent_def chat_body_def
      chat_init_def chat_run_def chat_failed_def split: sum.splits)

theorem chat_unrecognized_type_witness:
  "ChatRequest.agent_type translate_request \<noteq> ''chat''
   \<and> ChatRequest.agent_type translate_request \<noteq> ''search''
   \<and> chat_agent (no_agents\<lparr>chat_agent := Some greeter\<rparr>) = Some greeter
   \<and> execute greeter (message translate_request) False = Inr (answer ''hello'')
   \<and> get_capabilities greeter = Inr [''conversation'']
   \<and> chat_with_agent (chat_env greeter) (no_agents\<lparr>chat_agent := Some greeter\<rparr>) translate_request
     = (no_agents\<lparr>chat_agent := Some greeter\<rparr>,
        Inr \<lparr> ChatResponse.success = True,
              response = ''hello'',
              ChatResponse.agent_type = ''translate'',
              capabilities = [''conversation''],
              ChatResponse.metadata = [],
              ChatResponse.error = None \<rparr>)"
proof -
  have h1: "ChatRequest.agent_type translate_request \<noteq> ''chat''"
    by (simp add: translate_request_def)
  have h2: "ChatRequest.agent_type translate_request \<noteq> ''search''"
    by (simp add: translate_request_def)
  have h3: "chat_agent (no_agents\<lparr>chat_agent := Some greeter\<rparr>) = Some greeter"
    by simp
  have x: "execute greeter (message translate_request) False = Inr (answer ''hello'')"
    by (simp add: greeter_def answering_def)
  have c: "get_capabilities greeter = Inr [''conversation'']"
    by (simp add: greeter_def answering_def)
  show ?thesis
    using h1 h2 h3 x c chat_unrecognized_type [OF h1 h2 h3, of "chat_env greeter"]
    by (simp add: answer_def translate_request_def)
qed

text \<open>
  Claim C10. Whenever an exception is raised in the dispatch of \<^verbatim>\<open>/chat\<close>, the
  response has \<^verbatim>\<open>success=False\<close>, the empty response text, no capabilities, empty
  metadata, the request's \<^verbatim>\<open>agent_type\<close> and the text of the exception as its
  error. The exception is one of: the constructor of the search agent or of the chat
  agent raises; no agent is there for the request (the \<^verbatim>\<open>HTTPException\<close> of line
  127); \<^verbatim>\<open>execute\<close> raises, or \<^verbatim>\<open>get_capabilities\<close> after it, on the agent
  in use, be it held already or just constructed. By \<open>chat_body_raises\<close> these are
  all the exceptions there are.
\<close>

theorem chat_exception_response:
  assumes "(ChatRequest.agent_type request = ''search'' \<and> search_agent g = None
              \<and> SearchAgent env = Inl e \<and> g' = g)
         \<or> (ChatRequest.agent_type request = ''chat'' \<and> chat_agent g = None
              \<and> ChatAgent env = Inl e \<and> g' = g)
         \<or> (ChatRequest.agent_type request \<noteq> ''search''
              \<and> ChatRequest.agent_type request \<noteq> ''chat'' \<and> chat_agent g = None
              \<and> e = Exn HTTPException (HTTPException_str env 500 ''Failed to initialize agent'')
              \<and> g' = g)
         \<or> (\<exists>a. ((ChatRequest.agent_type request = ''search'' \<and> search_agent g = Some a
                     \<and> g' = g)
                  \<or> (ChatRequest.agent_type request = ''search'' \<and> search_agent g = None
                     \<and> SearchAgent env = Inr a \<and> g' = g\<lparr>search_agent := Some a\<rparr>)
                  \<or> (ChatRequest.agent_type request \<noteq> ''search'' \<and> chat_agent g = Some a
                     \<and> g' = g)
                  \<or> (ChatRequest.agent_type request = ''chat'' \<and> chat_agent g = None
                     \<and> ChatAgent env = Inr a \<and> g' = g\<lparr>chat_agent := Some a\<rparr>))
                \<and> (execute a (message request) False = Inl e
                    \<or> (\<exists>r. execute a (message request) False = Inr r
                             \<and> get_capabilities a = Inl e)))"
  shows "chat_with_agent env g request =
           (g', Inr \<lparr> ChatResponse.success = False,
                      response = [],
                      ChatResponse.agent_type = ChatRequest.agent_type request,
                      capabilities = [],
                      ChatResponse.metadata = [],
                      ChatResponse.error = Some (str e) \<rparr>)"
  using assms
  by (elim disjE exE conjE)
     (simp_all add: try_except_Inr try_except_Exception chat_with_agent_def chat_body_def
        chat_init_def chat_run_def chat_failed_def)

theorem chat_exception_response_witness:
  "ChatRequest.agent_type chat_request = ''chat''
   \<and> chat_agent no_agents = None
   \<and> ChatAgent unconfigured_env = Inl (Exn OtherException ''missing configuration'')
   \<and> chat_with_agent unconfigured_env no_agents chat_request
     = (no_agents, Inr \<lparr> ChatResponse.success = False,
                         response = [],
                         ChatResponse.agent_type = ''chat'',
                         capabilities = [],
                         ChatResponse.metadata = [],
                         ChatResponse.error = Some ''missing configuration'' \<rparr>)"
proof -
  let ?e = "Exn OtherException ''missing configuration''"
  have t: "ChatRequest.agent_type chat_request = ''chat''"
    by (simp add: chat_request_def)
  have n: "chat_agent no_agents = None"
    by (simp add: no_agents_def)
  have c: "ChatAgent unconfigured_env = Inl ?e"
    by (simp add: unconfigured_env_def example_env_def unconfigured_def raising_def)
  have h: "(ChatRequest.agent_type chat_request = ''search'' \<and> search_agent no_agents = None
              \<and> SearchAgent unconfigured_env = Inl ?e \<and> no_agents = no_agents)
         \<or> (ChatRequest.agent_type chat_request = ''chat'' \<and> chat_agent no_agents = None
              \<and> ChatAgent unconfigured_env = Inl ?e \<and> no_agents = no_agents)
         \<or> (ChatRequest.agent_type chat_request \<noteq> ''search''
              \<and> ChatRequest.agent_type chat_request \<noteq> ''chat'' \<and> chat_agent no_agents = None
              \<and> ?e = Exn HTTPException
                        (HTTPException_str unconfigured_env 500 ''Failed to initialize agent'')
              \<and> no_agents = no_agents)
         \<or> (\<exists>a. ((ChatRequest.agent_type chat_request = ''search''
                     \<and> search_agent no_agents = Some a \<and> no_agents = no_agents)
                  \<or> (ChatRequest.agent_type chat_request = ''search''
                     \<and> search_agent no_agents = None
                     \<and> SearchAgent unconfigured_env = Inr a
                     \<and> no_agents = no_agents\<lparr>search_agent := Some a\<rparr>)
                  \<or> (ChatRequest.agent_type chat_request \<noteq> ''search''
                     \<and> chat_agent no_agents = Some a \<and> no_agents = no_agents)
                  \<or> (ChatRequest.agent_type chat_request = ''chat'' \<and> chat_agent no_agents = None
                     \<and> ChatAgent unconfigured_env = Inr a
                     \<and> no_agents = no_agents\<lparr>chat_agent := Some a\<rparr>))
                \<and> (execute a (message chat_request) False = Inl ?e
                    \<or> (\<exists>r. execute a (message chat_request) False = Inr r
                             \<and> get_capabilities a = Inl ?e)))"
    using t n c by simp
  show ?thesis
    using t n c chat_exception_response [OF h] by (simp add: chat_request_def)
qed

section \<open>The capability listing\<close>

text \<open>
  Claim C4, as stated: when the construction of an agent raises in
  \<^verbatim>\<open>/agents/capabilities\<close>, the exception leaves the handler (HTTP 500). It fails:
  with no configuration the constructor of the search agent raises, and the handler
  returns a body with \<^verbatim>\<open>success=False\<close>.
\<close>

theorem capabilities_construction_failure_counterexample:
  "SearchAgent unconfigured_env = Inl (Exn OtherException ''missing configuration'')
   \<and> get_agent_capabilities unconfigured_env
     = Inr (PDict [(''success'', PBool False), (''error'', PStr ''missing configuration'')])"
  by (simp add: try_except_Inr try_except_Exception get_agent_capabilities_def
      capabilities_body_def capabilities_failed_def
      unconfigured_env_def example_env_def unconfigured_def raising_def)

text \<open>
  Claim C4, amended: when the construction of the search agent raises, or that of the
  chat agent after the search agent has been constructed and asked, the handler catches
  the exception and returns a body with \<^verbatim>\<open>success=False\<close> and the text of the
  exception as \<^verbatim>\<open>error\<close>; nothing leaves the handler.
\<close>

theorem capabilities_construction_failure:
  assumes "SearchAgent env = Inl e
           \<or> (\<exists>s caps. SearchAgent env = Inr s \<and> get_capabilities s = Inr caps
                         \<and> ChatAgent env = Inl e)"
  shows "get_agent_capabilities env
           = Inr (PDict [(''success'', PBool False), (''error'', PStr (str e))])"
  using assms
  by (auto simp: try_except_Inr try_except_Exception get_agent_capabilities_def
      capabilities_body_def capabilities_failed_def)

theorem capabilities_construction_failure_witness:
  "(SearchAgent (search_env greeter) = Inl (Exn OtherException ''missing configuration'')
    \<or> (\<exists>s caps. SearchAgent (search_env greeter) = Inr s \<and> get_capabilities s = Inr caps
          \<and> ChatAgent (search_env greeter) = Inl (Exn OtherException ''missing configuration'')))
   \<and> get_agent_capabilities (search_env greeter)
     = Inr (PDict [(''success'', PBool False), (''error'', PStr ''missing configuration'')])"
proof -
  have h: "SearchAgent (search_env greeter) = Inl (Exn OtherException ''missing configuration'')
    \<or> (\<exists>s caps. SearchAgent (search_env greeter) = Inr s \<and> get_capabilities s = Inr caps
          \<and> ChatAgent (search_env greeter) = Inl (Exn OtherException ''missing configuration''))"
    by (simp add: search_env_def example_env_def unconfigured_def raising_def greeter_def
        answering_def)
  show ?thesis
    using h capabilities_construction_failure [OF h] by simp
qed

end
